theory Spec2Isabelle
  imports Complex_Main "HOL-Library.Sublist" "HOL-Library.Char_ord" "HOL-Library.List_Lexorder"
begin

section \<open>namuplot.themes: data model\<close>

text \<open>
  The module \<^verbatim>\<open>namuplot/themes.py\<close> keeps a registry of named themes, each with a
  palette and a matplotlib \<^verbatim>\<open>RcParams\<close> object derived from it, and applies them to
  matplotlib's process-wide \<^verbatim>\<open>rcParams\<close>.

  Conventions of the embedding.
  \<^item> A Python \<^verbatim>\<open>str\<close> is a \<open>string\<close>: a sequence of characters with code points
    below 256, compared by code point as Python compares them.
  \<^item> A Python \<^verbatim>\<open>dict\<close> is an association list in insertion order. Assigning to a key
    that is present replaces the value and keeps the position; assigning to a new key
    appends it.
  \<^item> \<^verbatim>\<open>RcParams\<close> is a \<^verbatim>\<open>dict\<close> subclass of the plotting library. It is modelled
    as the string-keyed dictionary it is seen as from this module: an assignment
    stores the value. The library's own validation of keys and values is not part
    of this module and is not modelled.
  \<^item> A float literal of the source is the real number its decimal notation denotes.
  \<^item> An exception is a value of type \<open>error\<close>; a function that may raise returns
    \<open>error + 'a\<close>, with \<open>Inl\<close> for the exception.
\<close>

type_synonym ('k, 'v) pydict = "('k \<times> 'v) list"

datatype error =
    KeyError string      \<comment> \<open>\<^verbatim>\<open>KeyError(arg)\<close>, with its single string argument\<close>
  | Exception string     \<comment> \<open>any other exception, raised by client code\<close>

definition dict_get :: "('k, 'v) pydict \<Rightarrow> 'k \<Rightarrow> 'v option" where
  "dict_get d k = map_of d k"

definition dict_keys :: "('k, 'v) pydict \<Rightarrow> 'k list" where
  "dict_keys d = map fst d"

text \<open>\<^verbatim>\<open>d[k]\<close>: the value, or \<^verbatim>\<open>KeyError(k)\<close>.\<close>

definition dict_getitem :: "(string, 'v) pydict \<Rightarrow> string \<Rightarrow> error + 'v" where
  "dict_getitem d k = (case dict_get d k of None \<Rightarrow> Inl (KeyError k) | Some v \<Rightarrow> Inr v)"

text \<open>\<^verbatim>\<open>d[k] = v\<close>.\<close>

fun dict_setitem :: "('k, 'v) pydict \<Rightarrow> 'k \<Rightarrow> 'v \<Rightarrow> ('k, 'v) pydict" where
  "dict_setitem [] k v = [(k, v)]"
| "dict_setitem ((k', v') # d) k v =
     (if k' = k then (k, v) # d else (k', v') # dict_setitem d k v)"

text \<open>\<^verbatim>\<open>d.update(other)\<close>: assigns the items of \<open>other\<close>, in its order.\<close>

definition dict_update :: "('k, 'v) pydict \<Rightarrow> ('k, 'v) pydict \<Rightarrow> ('k, 'v) pydict" where
  "dict_update d other = foldl (\<lambda>acc (k, v). dict_setitem acc k v) d other"

text \<open>The values this module stores in an \<^verbatim>\<open>RcParams\<close>.\<close>

datatype rcvalue =
    RStr string
  | RBool bool
  | RInt int
  | RFloat real
  | RStrList "string list"
  | RIntPair int int           \<comment> \<open>the tuple \<^verbatim>\<open>(-4, 5)\<close>\<close>
  | RCycler "string list"      \<comment> \<open>\<^verbatim>\<open>mpl.cycler(color=cycle)\<close>\<close>

type_synonym palette = "(string, string) pydict"
type_synonym RcParams = "(string, rcvalue) pydict"

section \<open>Translation of a palette\<close>

text \<open>
  \<^verbatim>\<open>_build_rcparams(colors)\<close>. The three lookups of \<^verbatim>\<open>text\<close>, \<^verbatim>\<open>background\<close> and
  \<^verbatim>\<open>gray\<close> come first, then the assignments up to the marker size, then the five
  lookups of the cycle, then the remaining assignments, as in the source. The new
  \<^verbatim>\<open>RcParams\<close> is referenced by the local variable only, so the function is
  modelled as returning its contents; the caller allocates the object.
\<close>

definition core_look :: "string \<Rightarrow> string \<Rightarrow> RcParams \<Rightarrow> RcParams" where
  "core_look text bg rc0 =
    (let rc = dict_setitem rc0 ''figure.facecolor'' (RStr bg);
         rc = dict_setitem rc ''figure.edgecolor'' (RStr bg);
         rc = dict_setitem rc ''savefig.facecolor'' (RStr bg);
         rc = dict_setitem rc ''savefig.edgecolor'' (RStr bg);
         rc = dict_setitem rc ''axes.facecolor'' (RStr bg);
         rc = dict_setitem rc ''axes.edgecolor'' (RStr text);
         rc = dict_setitem rc ''axes.labelcolor'' (RStr text);
         rc = dict_setitem rc ''axes.titlecolor'' (RStr text);
         rc = dict_setitem rc ''text.color'' (RStr text);
         rc = dict_setitem rc ''xtick.color'' (RStr text);
         rc = dict_setitem rc ''ytick.color'' (RStr text)
     in rc)"

definition grid_spines_lines :: "string \<Rightarrow> RcParams \<Rightarrow> RcParams" where
  "grid_spines_lines text rc0 =
    (let rc = dict_setitem rc0 ''axes.grid'' (RBool True);
         rc = dict_setitem rc ''grid.color'' (RStr text);
         rc = dict_setitem rc ''grid.alpha'' (RFloat 0.30);
         rc = dict_setitem rc ''grid.linestyle'' (RStr ''-'');
         rc = dict_setitem rc ''grid.linewidth'' (RFloat 0.8);
         rc = dict_setitem rc ''axes.spines.top'' (RBool False);
         rc = dict_setitem rc ''axes.spines.right'' (RBool False);
         rc = dict_setitem rc ''lines.linewidth'' (RFloat 2.0);
         rc = dict_setitem rc ''lines.markersize'' (RInt 6)
     in rc)"

definition cycle_fonts_misc :: "string list \<Rightarrow> string \<Rightarrow> RcParams \<Rightarrow> RcParams" where
  "cycle_fonts_misc cycle gray rc0 =
    (let rc = dict_setitem rc0 ''axes.prop_cycle'' (RCycler cycle);
         rc = dict_setitem rc ''font.family'' (RStr ''sans-serif'');
         rc = dict_setitem rc ''font.sans-serif''
                (RStrList [''NanumBarunGothicOTF'', ''NanumBarunGothic'', ''NanumGothic'',
                           ''Apple SD Gothic Neo'', ''Malgun Gothic'', ''DejaVu Sans'']);
         rc = dict_setitem rc ''legend.frameon'' (RBool False);
         rc = dict_setitem rc ''axes.unicode_minus'' (RBool False);
         rc = dict_setitem rc ''axes.formatter.useoffset'' (RBool False);
         rc = dict_setitem rc ''axes.formatter.limits'' (RIntPair (-4) 5);
         rc = dict_setitem rc ''errorbar.capsize'' (RFloat 2.0);
         rc = dict_setitem rc ''axes.unicode_minus'' (RBool False);
         rc = dict_setitem rc ''patch.edgecolor'' (RStr gray);
         rc = dict_setitem rc ''boxplot.flierprops.markeredgecolor'' (RStr gray)
     in rc)"

definition build_rcparams :: "palette \<Rightarrow> error + RcParams" where
  "build_rcparams colors =
    (case dict_getitem colors ''text'' of Inl ex \<Rightarrow> Inl ex | Inr text \<Rightarrow>
     case dict_getitem colors ''background'' of Inl ex \<Rightarrow> Inl ex | Inr bg \<Rightarrow>
     case dict_getitem colors ''gray'' of Inl ex \<Rightarrow> Inl ex | Inr gray \<Rightarrow>
     let rc = grid_spines_lines text (core_look text bg []) in
     case dict_getitem colors ''a'' of Inl ex \<Rightarrow> Inl ex | Inr a \<Rightarrow>
     case dict_getitem colors ''b'' of Inl ex \<Rightarrow> Inl ex | Inr b \<Rightarrow>
     case dict_getitem colors ''c'' of Inl ex \<Rightarrow> Inl ex | Inr c \<Rightarrow>
     case dict_getitem colors ''d'' of Inl ex \<Rightarrow> Inl ex | Inr d \<Rightarrow>
     case dict_getitem colors ''e'' of Inl ex \<Rightarrow> Inl ex | Inr e \<Rightarrow>
     Inr (cycle_fonts_misc [a, b, c, d, e] gray rc))"



section \<open>Objects and the state of the process\<close>

text \<open>
  \<^verbatim>\<open>Theme\<close> is a frozen dataclass: its three attributes cannot be rebound. The
  attribute \<^verbatim>\<open>colors\<close> is typed \<^verbatim>\<open>Mapping[str, str]\<close>, an interface without
  mutation, and is modelled as a value. The attribute \<^verbatim>\<open>rc\<close> references a mutable
  \<^verbatim>\<open>RcParams\<close> object, so it is an address into a store of such objects. Theme
  objects have an identity too (\<^verbatim>\<open>theme is themes.get(name)\<close>), so they live in a
  store of their own. A new object gets the next free address.
\<close>

type_synonym addr = nat

record Theme =
  name :: string
  colors :: palette
  rc :: addr

text \<open>
  The state: the two stores, the module global \<^verbatim>\<open>_DEFAULT_THEMES\<close> and the contents
  of the plotting library's global \<^verbatim>\<open>mpl.rcParams\<close>.
\<close>

record world =
  theme_objs :: "Theme list"
  rc_objs :: "RcParams list"
  DEFAULT_THEMES :: "(string, addr) pydict"
  rcParams :: RcParams

text \<open>The contents of the \<^verbatim>\<open>RcParams\<close> that the Theme at address \<open>t\<close> references.\<close>

definition theme_rc :: "world \<Rightarrow> addr \<Rightarrow> RcParams" where
  "theme_rc w t = rc_objs w ! rc (theme_objs w ! t)"

text \<open>
  The invariant of a state built by the module: the registry is a dictionary (no
  key twice) whose values reference existing Theme objects filed under their own
  name, whose \<^verbatim>\<open>rc\<close> reference existing \<^verbatim>\<open>RcParams\<close> objects; every stored
  \<^verbatim>\<open>RcParams\<close> is a dictionary.
\<close>

definition entry_ok :: "Theme list \<Rightarrow> RcParams list \<Rightarrow> string \<times> addr \<Rightarrow> bool" where
  "entry_ok ts rs = (\<lambda>(k, t). t < length ts \<and> name (ts ! t) = k \<and> rc (ts ! t) < length rs)"

definition wf_world :: "world \<Rightarrow> bool" where
  "wf_world w \<longleftrightarrow>
     distinct (dict_keys (DEFAULT_THEMES w)) \<and>
     list_all (entry_ok (theme_objs w) (rc_objs w)) (DEFAULT_THEMES w) \<and>
     list_all (\<lambda>d. distinct (dict_keys d)) (rc_objs w)"

section \<open>Loading the registry\<close>

text \<open>
  \<^verbatim>\<open>_read_default_style()\<close> parses the bundled \<^verbatim>\<open>style.json\<close>. The file is a
  parameter: the members of its top-level object, in file order. The parser
  assigns them to a new dictionary one after the other.
\<close>

definition read_default_style :: "(string \<times> palette) list \<Rightarrow> (string, palette) pydict" where
  "read_default_style members = dict_update [] members"

text \<open>
  \<^verbatim>\<open>load_themes(configs)\<close>: the loop over \<^verbatim>\<open>configs.items()\<close>, with the local
  dictionary \<open>themes\<close> and the two stores. An exception of \<^verbatim>\<open>_build_rcparams\<close>
  leaves the function at once.
\<close>

fun load_loop :: "(string \<times> palette) list \<Rightarrow> (string, addr) pydict \<Rightarrow> Theme list \<times> RcParams list
    \<Rightarrow> error + ((string, addr) pydict \<times> Theme list \<times> RcParams list)" where
  "load_loop [] themes (ts, rs) = Inr (themes, ts, rs)"
| "load_loop ((n, cols) # rest) themes (ts, rs) =
     (case build_rcparams cols of
        Inl ex \<Rightarrow> Inl ex
      | Inr d \<Rightarrow>
          load_loop rest (dict_setitem themes n (length ts))
            (ts @ [\<lparr>name = n, colors = cols, rc = length rs\<rparr>], rs @ [d]))"

definition load_themes :: "(string, palette) pydict \<Rightarrow> Theme list \<times> RcParams list
    \<Rightarrow> error + ((string, addr) pydict \<times> Theme list \<times> RcParams list)" where
  "load_themes configs h = load_loop configs [] h"

text \<open>
  Import of the module: \<^verbatim>\<open>_DEFAULT_THEMES = load_themes(_read_default_style())\<close>.
  \<open>mpl0\<close> is the contents of \<^verbatim>\<open>mpl.rcParams\<close> at that moment. When the load raises,
  the import fails and there is no module state.
\<close>

definition module_init :: "(string \<times> palette) list \<Rightarrow> RcParams \<Rightarrow> error + world" where
  "module_init members mpl0 =
     (case load_themes (read_default_style members) ([], []) of
        Inl ex \<Rightarrow> Inl ex
      | Inr (themes, ts, rs) \<Rightarrow>
          Inr \<lparr>theme_objs = ts, rc_objs = rs, DEFAULT_THEMES = themes, rcParams = mpl0\<rparr>)"

section \<open>Python's \<^verbatim>\<open>repr\<close> of a string and of a list of strings\<close>

definition hex_digit :: "nat \<Rightarrow> char" where
  "hex_digit n = ''0123456789abcdef'' ! (n mod 16)"

definition hex_escape :: "char \<Rightarrow> string" where
  "hex_escape c = [CHR 0x5C, CHR ''x'', hex_digit (of_char c div 16), hex_digit (of_char c)]"

text \<open>
  One character inside the quotes: the quote and the backslash get a backslash;
  tab, newline and carriage return their letter; the other control characters and
  the non-printable characters above 127 (128 to 160, and the soft hyphen 173) a
  hexadecimal escape; every other character stands for itself.
\<close>

definition escape_char :: "char \<Rightarrow> char \<Rightarrow> string" where
  "escape_char quote c =
     (if c = quote \<or> c = CHR 0x5C then [CHR 0x5C, c]
      else if c = CHR 0x09 then [CHR 0x5C, CHR ''t'']
      else if c = CHR 0x0A then [CHR 0x5C, CHR ''n'']
      else if c = CHR 0x0D then [CHR 0x5C, CHR ''r'']
      else if (of_char c :: nat) < 32 \<or> (of_char c :: nat) = 127 then hex_escape c
      else if (of_char c :: nat) < 127 then [c]
      else if (of_char c :: nat) \<le> 160 \<or> (of_char c :: nat) = 173 then hex_escape c
      else [c])"

text \<open>Double quotes when the string has a single quote and no double quote.\<close>

definition repr_str :: "string \<Rightarrow> string" where
  "repr_str s =
     (let quote = (if CHR 0x27 \<in> set s \<and> CHR 0x22 \<notin> set s then CHR 0x22 else CHR 0x27)
      in [quote] @ concat (map (escape_char quote) s) @ [quote])"

fun join :: "string \<Rightarrow> string list \<Rightarrow> string" where
  "join sep [] = []"
| "join sep [x] = x"
| "join sep (x # y # ys) = x @ sep @ join sep (y # ys)"

definition repr_list :: "string list \<Rightarrow> string" where
  "repr_list xs = ''['' @ join '', '' (map repr_str xs) @ '']''"

section \<open>The public functions\<close>

text \<open>
  Every function runs in the state and returns its result with the state after
  the call.
\<close>

definition available :: "world \<Rightarrow> string list \<times> world" where
  "available w = (dict_keys (DEFAULT_THEMES w), w)"

text \<open>\<^verbatim>\<open>sorted(_DEFAULT_THEMES)\<close> sorts the keys as strings.\<close>

definition unknown_theme_message :: "string \<Rightarrow> world \<Rightarrow> string" where
  "unknown_theme_message n w =
     ''Unknown theme: '' @ repr_str n @ ''. Available: '' @
     repr_list (sort (dict_keys (DEFAULT_THEMES w)))"

definition get :: "string \<Rightarrow> world \<Rightarrow> (error + addr) \<times> world" where
  "get n w =
     (case dict_get (DEFAULT_THEMES w) n of
        Some t \<Rightarrow> (Inr t, w)
      | None \<Rightarrow> (Inl (KeyError (unknown_theme_message n w)), w))"

definition use :: "string \<Rightarrow> world \<Rightarrow> (error + addr) \<times> world" where
  "use n w =
     (case get n w of
        (Inl ex, w1) \<Rightarrow> (Inl ex, w1)
      | (Inr t, w1) \<Rightarrow> (Inr t, w1\<lparr>rcParams := dict_update (rcParams w1) (theme_rc w1 t)\<rparr>))"

text \<open>
  \<^verbatim>\<open>iter_use\<close> is a generator function: the call returns a generator and runs
  nothing of the body. A generator is created, suspended at the \<^verbatim>\<open>yield\<close> with the
  names still to come, or closed (exhausted, or left by an exception). \<^verbatim>\<open>next\<close>
  returns the yielded pair, \<open>None\<close> for \<^verbatim>\<open>StopIteration\<close>, or the exception.
\<close>

datatype gen = Created "string list option" | Suspended "string list" | Closed

definition iter_use :: "string list option \<Rightarrow> world \<Rightarrow> gen \<times> world" where
  "iter_use names w = (Created names, w)"

definition iter_step :: "string list \<Rightarrow> world \<Rightarrow> ((error + (string \<times> addr) option) \<times> gen) \<times> world" where
  "iter_step names w =
     (case names of
        [] \<Rightarrow> ((Inr None, Closed), w)
      | n # rest \<Rightarrow>
          (case use n w of
             (Inl ex, w1) \<Rightarrow> ((Inl ex, Closed), w1)
           | (Inr t, w1) \<Rightarrow> ((Inr (Some (n, t)), Suspended rest), w1)))"

fun gen_next :: "gen \<Rightarrow> world \<Rightarrow> ((error + (string \<times> addr) option) \<times> gen) \<times> world" where
  "gen_next (Created None) w = (case available w of (names, w1) \<Rightarrow> iter_step names w1)"
| "gen_next (Created (Some names)) w = iter_step names w"
| "gen_next (Suspended names) w = iter_step names w"
| "gen_next Closed w = ((Inr None, Closed), w)"

text \<open>A consumer that calls \<^verbatim>\<open>next\<close> \<open>k\<close> times and keeps the results.\<close>

fun nexts :: "nat \<Rightarrow> gen \<Rightarrow> world \<Rightarrow> ((error + (string \<times> addr) option) list \<times> gen) \<times> world" where
  "nexts 0 g w = (([], g), w)"
| "nexts (Suc k) g w =
     (case gen_next g w of
        ((r, g1), w1) \<Rightarrow> (case nexts k g1 w1 of ((rs, g2), w2) \<Rightarrow> ((r # rs, g2), w2)))"

text \<open>
  Modelled from the spec: \<^verbatim>\<open>mpl.rc_context(rc=...)\<close>, a context manager of the
  plotting library, whose code is not part of this repository. By the spec it
  captures the current global configuration, applies \<open>rc\<close> to it for the duration
  of the scope, and restores the prior global configuration on exit, whether the
  body of the \<^verbatim>\<open>with\<close> statement returns or raises.
\<close>

definition rc_context :: "RcParams \<Rightarrow> (world \<Rightarrow> (error + 'a) \<times> world) \<Rightarrow> world \<Rightarrow> (error + 'a) \<times> world" where
  "rc_context rc' body w =
     (let orig = rcParams w;
          w1 = w\<lparr>rcParams := dict_update (rcParams w) rc'\<rparr>
      in case body w1 of (r, w2) \<Rightarrow> (r, w2\<lparr>rcParams := orig\<rparr>))"

text \<open>
  \<^verbatim>\<open>with context(name): body\<close>. The lookup \<^verbatim>\<open>get(name).rc\<close> happens on entry, before
  the library's context is entered; when it raises, the body does not run.
\<close>

definition with_context :: "string \<Rightarrow> (world \<Rightarrow> (error + 'a) \<times> world) \<Rightarrow> world \<Rightarrow> (error + 'a) \<times> world" where
  "with_context n body w =
     (case get n w of
        (Inl ex, w1) \<Rightarrow> (Inl ex, w1)
      | (Inr t, w1) \<Rightarrow> rc_context (theme_rc w1 t) body w1)"

text \<open>Allocation of an empty \<^verbatim>\<open>RcParams\<close>, and the two writes on such an object.\<close>

definition new_RcParams :: "world \<Rightarrow> addr \<times> world" where
  "new_RcParams w = (length (rc_objs w), w\<lparr>rc_objs := rc_objs w @ [[]]\<rparr>)"

definition RcParams_update :: "addr \<Rightarrow> RcParams \<Rightarrow> world \<Rightarrow> world" where
  "RcParams_update a other w = w\<lparr>rc_objs := (rc_objs w)[a := dict_update (rc_objs w ! a) other]\<rparr>"

definition RcParams_setitem :: "addr \<Rightarrow> string \<Rightarrow> rcvalue \<Rightarrow> world \<Rightarrow> world" where
  "RcParams_setitem a k v w = w\<lparr>rc_objs := (rc_objs w)[a := dict_setitem (rc_objs w ! a) k v]\<rparr>"

definition to_rcparams :: "string \<Rightarrow> world \<Rightarrow> (error + addr) \<times> world" where
  "to_rcparams n w =
     (case get n w of
        (Inl ex, w1) \<Rightarrow> (Inl ex, w1)
      | (Inr t, w1) \<Rightarrow>
          (case new_RcParams w1 of
             (a, w2) \<Rightarrow> (Inr a, RcParams_update a (theme_rc w2 t) w2)))"

section \<open>Auxiliary notions for the statements\<close>

text \<open>The state after calling \<^verbatim>\<open>use\<close> on each name of a list, in order.\<close>

fun use_all :: "string list \<Rightarrow> world \<Rightarrow> world" where
  "use_all [] w = w"
| "use_all (n # ns) w = use_all ns (snd (use n w))"

text \<open>
  The characters that \<^verbatim>\<open>repr\<close> leaves as they are whatever the quote: printable,
  and neither the single quote nor the backslash.
\<close>

definition verbatim_char :: "char \<Rightarrow> bool" where
  "verbatim_char c \<longleftrightarrow>
     c \<noteq> CHR 0x27 \<and> c \<noteq> CHR 0x5C \<and>
     ((32 \<le> (of_char c :: nat) \<and> (of_char c :: nat) < 127) \<or>
      (160 < (of_char c :: nat) \<and> (of_char c :: nat) \<noteq> 173))"

text \<open>
  What is stored for a name: the Theme object's attributes and the contents of its
  style configuration.
\<close>

definition stored_theme :: "world \<Rightarrow> string \<Rightarrow> (Theme \<times> RcParams) option" where
  "stored_theme w n =
     map_option (\<lambda>t. (theme_objs w ! t, theme_rc w t)) (dict_get (DEFAULT_THEMES w) n)"

text \<open>
  A call of a public function by a client; the consumer of \<^verbatim>\<open>iter_use\<close> calls
  \<^verbatim>\<open>next\<close> a given number of times, and \<^verbatim>\<open>context\<close> comes with the body of its
  \<^verbatim>\<open>with\<close> statement.
\<close>

datatype op =
    Available
  | Get string
  | Use string
  | IterUse "string list option" nat
  | ToRcparams string
  | Context string "world \<Rightarrow> (error + unit) \<times> world"

fun run_op :: "op \<Rightarrow> world \<Rightarrow> world" where
  "run_op Available w = snd (available w)"
| "run_op (Get n) w = snd (get n w)"
| "run_op (Use n) w = snd (use n w)"
| "run_op (IterUse names k) w = (case iter_use names w of (g, w1) \<Rightarrow> snd (nexts k g w1))"
| "run_op (ToRcparams n) w = snd (to_rcparams n w)"
| "run_op (Context n body) w = snd (with_context n body w)"

definition run_ops :: "op list \<Rightarrow> world \<Rightarrow> world" where
  "run_ops ops w = foldl (\<lambda>w' x. run_op x w') w ops"

text \<open>
  What \<^verbatim>\<open>next\<close> returns when the generator yields for the name \<open>n\<close>: the name with
  the Theme that \<^verbatim>\<open>get\<close> returns, or the exception of \<^verbatim>\<open>get\<close>.
\<close>

definition yield_of :: "world \<Rightarrow> string \<Rightarrow> error + (string \<times> addr) option" where
  "yield_of w n = (case fst (get n w) of Inl ex \<Rightarrow> Inl ex | Inr t \<Rightarrow> Inr (Some (n, t)))"

text \<open>
  The second state has the registry, the Theme objects and the \<^verbatim>\<open>RcParams\<close> objects
  of the first, unchanged, and possibly new \<^verbatim>\<open>RcParams\<close> objects. A body keeps
  the stores when it relates every state to the state it ends in.
\<close>

definition stores_kept :: "world \<Rightarrow> world \<Rightarrow> bool" where
  "stores_kept w w' \<longleftrightarrow>
     DEFAULT_THEMES w' = DEFAULT_THEMES w \<and> theme_objs w' = theme_objs w \<and>
     prefix (rc_objs w) (rc_objs w')"

definition keeps_stores :: "(world \<Rightarrow> (error + 'a) \<times> world) \<Rightarrow> bool" where
  "keeps_stores body \<longleftrightarrow> (\<forall>w. stores_kept w (snd (body w)))"

fun body_keeps_stores :: "op \<Rightarrow> bool" where
  "body_keeps_stores (Context n body) = keeps_stores body"
| "body_keeps_stores _ = True"

section \<open>Example data\<close>

text \<open>A data file with two themes, and a few entries of the library's defaults.\<close>

definition light_palette :: palette where
  "light_palette =
     [(''text'', ''#222222''), (''background'', ''#ffffff''), (''gray'', ''#888888''),
      (''a'', ''#4e79a7''), (''b'', ''#f28e2b''), (''c'', ''#e15759''),
      (''d'', ''#76b7b2''), (''e'', ''#59a14f'')]"

definition dark_palette :: palette where
  "dark_palette =
     [(''text'', ''#eeeeee''), (''background'', ''#111111''), (''gray'', ''#777777''),
      (''a'', ''#8ecae6''), (''b'', ''#ffb703''), (''c'', ''#fb8500''),
      (''d'', ''#90be6d''), (''e'', ''#f94144'')]"

definition example_style :: "(string \<times> palette) list" where
  "example_style = [(''light'', light_palette), (''dark'', dark_palette)]"


definition mpl_defaults :: RcParams where
  "mpl_defaults =
     [(''backend'', RStr ''agg''), (''figure.facecolor'', RStr ''white''),
      (''text.color'', RStr ''black''), (''lines.linewidth'', RFloat 1.5),
      (''font.size'', RFloat 10.0)]"

definition example_world :: world where
  "example_world =
     (case module_init example_style mpl_defaults of
        Inr w \<Rightarrow> w
      | Inl ex \<Rightarrow> \<lparr>theme_objs = [], rc_objs = [], DEFAULT_THEMES = [], rcParams = mpl_defaults\<rparr>)"

text \<open>The name \<^verbatim>\<open>a\b\<close>, three characters with a backslash in the middle.\<close>

definition backslash_name :: string where
  "backslash_name = [CHR ''a'', CHR 0x5C, CHR ''b'']"

text \<open>
  Client code: \<^verbatim>\<open>themes.get("dark").rc["figure.facecolor"] = "#123456"\<close>, and a
  body that raises after changing the global configuration.
\<close>

definition client_write :: "world \<Rightarrow> (error + unit) \<times> world" where
  "client_write w =
     (case get ''dark'' w of
        (Inl ex, w1) \<Rightarrow> (Inl ex, w1)
      | (Inr t, w1) \<Rightarrow>
          (Inr (), RcParams_setitem (rc (theme_objs w1 ! t)) ''figure.facecolor''
                     (RStr ''#123456'') w1))"

definition failing_body :: "world \<Rightarrow> (error + unit) \<times> world" where
  "failing_body w =
     (Inl (Exception ''boom''),
      w\<lparr>rcParams := dict_setitem (rcParams w) ''font.size'' (RFloat 12.0)\<rparr>)"

section \<open>Dictionaries: basic facts\<close>

lemma dict_get_setitem:
  "dict_get (dict_setitem d k v) k' = (if k' = k then Some v else dict_get d k')"
  by (induction d) (auto simp: dict_get_def)

lemma dict_keys_setitem:
  "dict_keys (dict_setitem d k v) =
     (if k \<in> set (dict_keys d) then dict_keys d else dict_keys d @ [k])"
  by (induction d) (force simp: dict_keys_def)+

lemma distinct_keys_setitem:
  "distinct (dict_keys d) \<Longrightarrow> distinct (dict_keys (dict_setitem d k v))"
  by (simp add: dict_keys_setitem)

lemma dict_update_Cons:
  "dict_update d ((k, v) # other) = dict_update (dict_setitem d k v) other"
  by (simp add: dict_update_def)

lemma dict_update_Nil: "dict_update d [] = d"
  by (simp add: dict_update_def)

lemma dict_update_snoc:
  "dict_update d (other @ [(k, v)]) = dict_setitem (dict_update d other) k v"
  by (simp add: dict_update_def)

lemma dict_get_None_iff: "dict_get d k = None \<longleftrightarrow> k \<notin> set (dict_keys d)"
  by (simp add: dict_get_def dict_keys_def map_of_eq_None_iff)

lemma dict_get_Cons:
  "dict_get ((k', v') # d) k = (if k = k' then Some v' else dict_get d k)"
  by (simp add: dict_get_def)

lemma dict_get_update:
  "distinct (dict_keys other) \<Longrightarrow>
   dict_get (dict_update d other) k =
     (case dict_get other k of Some v \<Rightarrow> Some v | None \<Rightarrow> dict_get d k)"
proof (induction other arbitrary: d)
  case Nil
  then show ?case by (simp add: dict_update_Nil dict_get_def)
next
  case (Cons p other)
  obtain k' v' where p: "p = (k', v')" by (cases p)
  from Cons.prems p have fresh: "dict_get other k' = None" and dist: "distinct (dict_keys other)"
    by (auto simp: dict_get_None_iff dict_keys_def)
  show ?case
    using Cons.IH [OF dist, of "dict_setitem d k' v'"] fresh
    by (simp add: p dict_update_Cons dict_get_setitem dict_get_Cons split: option.splits)
qed

lemma set_keys_update:
  "set (dict_keys (dict_update d other)) = set (dict_keys d) \<union> set (dict_keys other)"
proof (induction other arbitrary: d)
  case Nil
  then show ?case by (simp add: dict_update_Nil dict_keys_def)
next
  case (Cons p other)
  obtain k' v' where p: "p = (k', v')" by (cases p)
  show ?case
    unfolding p dict_update_Cons Cons.IH
    by (auto simp: dict_keys_setitem) (auto simp: dict_keys_def)
qed

lemma distinct_keys_update:
  "distinct (dict_keys d) \<Longrightarrow> distinct (dict_keys (dict_update d other))"
proof (induction other arbitrary: d)
  case Nil
  then show ?case by (simp add: dict_update_Nil)
next
  case (Cons p other)
  obtain k' v' where p: "p = (k', v')" by (cases p)
  show ?case
    unfolding p dict_update_Cons
    by (rule Cons.IH) (rule distinct_keys_setitem [OF Cons.prems])
qed

lemma keys_read_default_style:
  "dict_keys (read_default_style members) = rev (remdups (rev (map fst members)))"
proof (induction members rule: rev_induct)
  case Nil
  then show ?case by (simp add: read_default_style_def dict_update_Nil dict_keys_def)
next
  case (snoc p members)
  obtain k v where p: "p = (k, v)" by (cases p)
  have "set (dict_keys (read_default_style members)) = fst ` set members"
    by (simp add: snoc.IH)
  then show ?case
    using snoc.IH
    by (simp add: p read_default_style_def dict_update_snoc dict_keys_setitem)
qed

section \<open>Translation: facts\<close>



lemma build_rcparams_distinct:
  "build_rcparams p = Inr d \<Longrightarrow> distinct (dict_keys d)"
  by (auto simp: build_rcparams_def dict_getitem_def Let_def core_look_def grid_spines_lines_def
      cycle_fonts_misc_def dict_keys_def split: option.splits)



section \<open>Loading: facts\<close>

lemma entry_ok_append:
  "entry_ok ts rs e \<Longrightarrow> entry_ok (ts @ ts') (rs @ rs') e"
  by (cases e) (auto simp: entry_ok_def nth_append)

lemma set_setitem_subset:
  "set (dict_setitem d k v) \<subseteq> insert (k, v) (set d)"
  by (induction d) (auto split: if_splits)

lemma load_loop_invariant:
  assumes "load_loop configs themes (ts, rs) = Inr (themes', ts', rs')"
    and "distinct (dict_keys themes)"
    and "list_all (entry_ok ts rs) themes"
    and "list_all (\<lambda>d. distinct (dict_keys d)) rs"
  shows "distinct (dict_keys themes') \<and> list_all (entry_ok ts' rs') themes' \<and>
         list_all (\<lambda>d. distinct (dict_keys d)) rs'"
  using assms
proof (induction configs themes "(ts, rs)" arbitrary: ts rs rule: load_loop.induct)
  case (1 themes ts rs)
  then show ?case by simp
next
  case (2 n cols rest themes ts rs)
  from "2.prems"(1) obtain d where d: "build_rcparams cols = Inr d"
    and rest: "load_loop rest (dict_setitem themes n (length ts))
                 (ts @ [\<lparr>name = n, colors = cols, rc = length rs\<rparr>], rs @ [d]) = Inr (themes', ts', rs')"
    by (auto split: sum.splits)
  let ?ts = "ts @ [\<lparr>name = n, colors = cols, rc = length rs\<rparr>]"
  let ?rs = "rs @ [d]"
  have new: "entry_ok ?ts ?rs (n, length ts)"
    by (simp add: entry_ok_def)
  have old: "\<forall>e \<in> set themes. entry_ok ?ts ?rs e"
    using "2.prems"(3) by (auto simp: list_all_iff intro: entry_ok_append)
  have "list_all (entry_ok ?ts ?rs) (dict_setitem themes n (length ts))"
    using new old set_setitem_subset [of themes n "length ts"] by (auto simp: list_all_iff)
  moreover have "distinct (dict_keys (dict_setitem themes n (length ts)))"
    using "2.prems"(2) by (rule distinct_keys_setitem)
  moreover have "list_all (\<lambda>d. distinct (dict_keys d)) ?rs"
    using "2.prems"(4) build_rcparams_distinct [OF d] by simp
  ultimately show ?case
    using "2.hyps" [OF d rest] by blast
qed

lemma load_loop_keys:
  assumes "load_loop configs themes h = Inr (themes', h')"
    and "distinct (map fst configs)"
    and "set (map fst configs) \<inter> set (dict_keys themes) = {}"
  shows "dict_keys themes' = dict_keys themes @ map fst configs"
  using assms
proof (induction configs themes h rule: load_loop.induct)
  case (1 themes ts rs)
  then show ?case by simp
next
  case (2 n cols rest themes ts rs)
  from "2.prems"(1) obtain d where d: "build_rcparams cols = Inr d"
    and rest: "load_loop rest (dict_setitem themes n (length ts))
                 (ts @ [\<lparr>name = n, colors = cols, rc = length rs\<rparr>], rs @ [d]) = Inr (themes', h')"
    by (auto split: sum.splits)
  have keys: "dict_keys (dict_setitem themes n (length ts)) = dict_keys themes @ [n]"
    using "2.prems"(3) by (simp add: dict_keys_setitem)
  have "dict_keys themes' = dict_keys (dict_setitem themes n (length ts)) @ map fst rest"
    using "2.prems"(2,3) by (intro "2.IH" [OF d rest]) (auto simp: keys)
  then show ?case by (simp add: keys)
qed


section \<open>The invariant: facts\<close>

lemma wf_world_entry:
  assumes "wf_world w" and "dict_get (DEFAULT_THEMES w) n = Some t"
  shows "t < length (theme_objs w)" and "name (theme_objs w ! t) = n"
    and "rc (theme_objs w ! t) < length (rc_objs w)"
    and "distinct (dict_keys (theme_rc w t))"
proof -
  from assms(2) have "(n, t) \<in> set (DEFAULT_THEMES w)"
    by (simp add: dict_get_def map_of_SomeD)
  with assms(1) have e: "entry_ok (theme_objs w) (rc_objs w) (n, t)"
    by (simp add: wf_world_def list_all_iff)
  then show "t < length (theme_objs w)" "name (theme_objs w ! t) = n"
    and r: "rc (theme_objs w ! t) < length (rc_objs w)"
    by (simp_all add: entry_ok_def)
  from assms(1) r show "distinct (dict_keys (theme_rc w t))"
    by (simp add: wf_world_def list_all_length theme_rc_def)
qed

lemma module_init_wf:
  assumes "module_init members mpl0 = Inr w"
  shows "wf_world w"
proof -
  from assms obtain themes ts rs where
    l: "load_loop (read_default_style members) [] ([], []) = Inr (themes, ts, rs)"
    and w: "w = \<lparr>theme_objs = ts, rc_objs = rs, DEFAULT_THEMES = themes, rcParams = mpl0\<rparr>"
    by (auto simp: module_init_def load_themes_def split: sum.splits)
  from load_loop_invariant [OF l] show ?thesis
    by (simp add: w wf_world_def dict_keys_def)
qed

lemma module_init_keys:
  assumes "module_init members mpl0 = Inr w"
  shows "dict_keys (DEFAULT_THEMES w) = dict_keys (read_default_style members)"
proof -
  from assms obtain themes ts rs where
    l: "load_loop (read_default_style members) [] ([], []) = Inr (themes, ts, rs)"
    and w: "w = \<lparr>theme_objs = ts, rc_objs = rs, DEFAULT_THEMES = themes, rcParams = mpl0\<rparr>"
    by (auto simp: module_init_def load_themes_def split: sum.splits)
  have "distinct (dict_keys (read_default_style members))"
    by (simp add: keys_read_default_style)
  with load_loop_keys [OF l] show ?thesis
    by (simp add: w dict_keys_def)
qed

section \<open>The representation of strings: facts\<close>

lemma escape_char_verbatim:
  assumes "verbatim_char c"
  shows "escape_char (CHR 0x27) c = [c]"
proof -
  let ?n = "of_char c :: nat"
  from assms have q: "c \<noteq> CHR 0x27" "c \<noteq> CHR 0x5C"
    and r: "(32 \<le> ?n \<and> ?n < 127) \<or> (160 < ?n \<and> ?n \<noteq> 173)"
    by (simp_all add: verbatim_char_def)
  from r have ge: "32 \<le> ?n" by linarith
  have t: "c \<noteq> CHR 0x09" using ge by (rule contrapos_pn) simp
  have n: "c \<noteq> CHR 0x0A" using ge by (rule contrapos_pn) simp
  have cr: "c \<noteq> CHR 0x0D" using ge by (rule contrapos_pn) simp
  from r show ?thesis
  proof
    assume "32 \<le> ?n \<and> ?n < 127"
    then show ?thesis using q t n cr by (simp add: escape_char_def)
  next
    assume "160 < ?n \<and> ?n \<noteq> 173"
    then show ?thesis using q t n cr by (simp add: escape_char_def)
  qed
qed

lemma repr_str_verbatim:
  assumes "list_all verbatim_char s"
  shows "repr_str s = [CHR 0x27] @ s @ [CHR 0x27]"
proof -
  have q: "CHR 0x27 \<notin> set s"
    using assms by (auto simp: list_all_iff verbatim_char_def)
  have "concat (map (escape_char (CHR 0x27)) s) = s"
    using assms by (induction s) (simp_all add: escape_char_verbatim)
  with q show ?thesis by (simp add: repr_str_def Let_def)
qed

section \<open>The public functions: facts\<close>

lemma get_Some: "dict_get (DEFAULT_THEMES w) n = Some t \<Longrightarrow> get n w = (Inr t, w)"
  by (simp add: get_def)

lemma get_None:
  "dict_get (DEFAULT_THEMES w) n = None \<Longrightarrow>
   get n w = (Inl (KeyError (unknown_theme_message n w)), w)"
  by (simp add: get_def)

lemma use_Some:
  "dict_get (DEFAULT_THEMES w) n = Some t \<Longrightarrow>
   use n w = (Inr t, w\<lparr>rcParams := dict_update (rcParams w) (theme_rc w t)\<rparr>)"
  by (simp add: use_def get_Some)

lemma use_None:
  "dict_get (DEFAULT_THEMES w) n = None \<Longrightarrow>
   use n w = (Inl (KeyError (unknown_theme_message n w)), w)"
  by (simp add: use_def get_None)

lemma theme_rc_rcParams [simp]: "theme_rc (w\<lparr>rcParams := r\<rparr>) t = theme_rc w t"
  by (simp add: theme_rc_def)

lemma to_rcparams_Some:
  "dict_get (DEFAULT_THEMES w) n = Some t \<Longrightarrow> rc (theme_objs w ! t) < length (rc_objs w) \<Longrightarrow>
   to_rcparams n w =
     (Inr (length (rc_objs w)),
      w\<lparr>rc_objs := rc_objs w @ [dict_update [] (rc_objs w ! rc (theme_objs w ! t))]\<rparr>)"
  by (simp add: to_rcparams_def get_Some new_RcParams_def RcParams_update_def theme_rc_def
      nth_append)

lemma use_frame:
  "DEFAULT_THEMES (snd (use n w)) = DEFAULT_THEMES w"
  "theme_objs (snd (use n w)) = theme_objs w"
  "rc_objs (snd (use n w)) = rc_objs w"
  by (simp_all add: use_def get_def split: option.splits)

lemma use_all_frame:
  "DEFAULT_THEMES (use_all ns w) = DEFAULT_THEMES w \<and>
   theme_objs (use_all ns w) = theme_objs w \<and> rc_objs (use_all ns w) = rc_objs w"
  by (induction ns arbitrary: w) (simp_all add: use_frame)

lemma use_all_snoc: "use_all (ns @ [n]) w = snd (use n (use_all ns w))"
  by (induction ns arbitrary: w) simp_all

lemma get_frame: "DEFAULT_THEMES w' = DEFAULT_THEMES w \<Longrightarrow> fst (get n w') = fst (get n w)"
  by (simp add: get_def unknown_theme_message_def split: option.splits)

lemma yield_of_frame: "DEFAULT_THEMES w' = DEFAULT_THEMES w \<Longrightarrow> yield_of w' n = yield_of w n"
  using get_frame [of w' w n] by (simp add: yield_of_def)

lemma yield_of_valid:
  "dict_get (DEFAULT_THEMES w) n \<noteq> None \<Longrightarrow>
   \<exists>t. yield_of w n = Inr (Some (n, t)) \<and> fst (get n w) = Inr t"
  by (auto simp: yield_of_def get_def)

lemma use_all_last:
  assumes "wf_world w" and "names \<noteq> []"
    and "dict_get (DEFAULT_THEMES w) (last names) = Some t"
    and "dict_get (theme_rc w t) k = Some v"
  shows "dict_get (rcParams (use_all names w)) k = Some v"
proof -
  let ?w2 = "use_all (butlast names) w"
  have f: "DEFAULT_THEMES ?w2 = DEFAULT_THEMES w" "theme_objs ?w2 = theme_objs w"
    "rc_objs ?w2 = rc_objs w"
    using use_all_frame [of "butlast names" w] by simp_all
  then have rc2: "theme_rc ?w2 t = theme_rc w t"
    by (simp add: theme_rc_def)
  have d: "distinct (dict_keys (theme_rc w t))"
    using wf_world_entry(4) [OF assms(1,3)] .
  have "use_all names w = snd (use (last names) ?w2)"
    using use_all_snoc [of "butlast names" "last names" w] assms(2) by simp
  also have "\<dots> = ?w2\<lparr>rcParams := dict_update (rcParams ?w2) (theme_rc w t)\<rparr>"
    using assms(3) by (simp add: use_def get_def f rc2)
  finally show ?thesis
    using assms(4) by (simp add: dict_get_update [OF d])
qed

section \<open>The generator: facts\<close>

lemma iter_step_Cons_valid:
  "dict_get (DEFAULT_THEMES w) n \<noteq> None \<Longrightarrow>
   iter_step (n # rest) w = ((yield_of w n, Suspended rest), snd (use n w))"
  by (auto simp: iter_step_def use_def yield_of_def get_def split: option.splits)


lemma nexts_Suspended_valid:
  "list_all (\<lambda>n. dict_get (DEFAULT_THEMES w) n \<noteq> None) pre \<Longrightarrow>
   nexts (length pre) (Suspended (pre @ rest)) w =
     ((map (yield_of w) pre, Suspended rest), use_all pre w)"
proof (induction pre arbitrary: w)
  case Nil
  then show ?case by simp
next
  case (Cons n pre)
  let ?w1 = "snd (use n w)"
  have reg: "DEFAULT_THEMES ?w1 = DEFAULT_THEMES w" by (rule use_frame)
  from Cons.prems have "list_all (\<lambda>n. dict_get (DEFAULT_THEMES ?w1) n \<noteq> None) pre"
    by (simp add: reg)
  from Cons.IH [OF this] Cons.prems show ?case
    by (simp add: iter_step_Cons_valid reg yield_of_frame [OF reg] cong: map_cong)
qed

lemma nexts_add:
  "nexts (j + k) g w =
     (case nexts j g w of ((rs, g1), w1) \<Rightarrow>
        (case nexts k g1 w1 of ((rs', g2), w2) \<Rightarrow> ((rs @ rs', g2), w2)))"
  by (induction j arbitrary: g w) (simp_all split: prod.splits)

lemma nexts_Suc_Created:
  "nexts (Suc k) (Created (Some names)) w = nexts (Suc k) (Suspended names) w"
  by simp

lemma nexts_Suc_Created_None:
  "nexts (Suc k) (Created None) w = nexts (Suc k) (Created (Some (fst (available w)))) w"
  by (simp add: available_def)

lemma nexts_Closed: "nexts k Closed w = ((replicate k (Inr None), Closed), w)"
  by (induction k) simp_all

lemma nexts_started:
  assumes "list_all (\<lambda>n. dict_get (DEFAULT_THEMES w) n \<noteq> None) pre"
  shows "fst (fst (nexts (length pre) (Created (Some (pre @ rest))) w)) = map (yield_of w) pre \<and>
         snd (nexts (length pre) (Created (Some (pre @ rest))) w) = use_all pre w \<and>
         gen_next (snd (fst (nexts (length pre) (Created (Some (pre @ rest))) w))) (use_all pre w) =
           iter_step rest (use_all pre w)"
proof (cases pre)
  case Nil
  then show ?thesis by simp
next
  case (Cons n ns)
  then have "nexts (length pre) (Created (Some (pre @ rest))) w =
             nexts (length pre) (Suspended (pre @ rest)) w"
    by simp
  then show ?thesis
    by (simp add: nexts_Suspended_valid [OF assms])
qed

lemma nexts_Suc_split:
  "nexts (Suc k) g w =
     (case nexts k g w of ((rs, g1), w1) \<Rightarrow>
        (case gen_next g1 w1 of ((r, g2), w2) \<Rightarrow> ((rs @ [r], g2), w2)))"
proof -
  have "nexts (Suc k) g w = nexts (k + Suc 0) g w" by simp
  also have "\<dots> = (case nexts k g w of ((rs, g1), w1) \<Rightarrow>
        (case nexts (Suc 0) g1 w1 of ((rs', g2), w2) \<Rightarrow> ((rs @ rs', g2), w2)))"
    by (rule nexts_add)
  also have "\<dots> = (case nexts k g w of ((rs, g1), w1) \<Rightarrow>
        (case gen_next g1 w1 of ((r, g2), w2) \<Rightarrow> ((rs @ [r], g2), w2)))"
    by (simp split: prod.splits)
  finally show ?thesis .
qed

lemma nexts_then_step:
  assumes "list_all (\<lambda>n. dict_get (DEFAULT_THEMES w) n \<noteq> None) pre"
    and "iter_step rest (use_all pre w) = ((r, g), w')"
  shows "nexts (Suc (length pre)) (Created (Some (pre @ rest))) w =
           ((map (yield_of w) pre @ [r], g), w')"
proof -
  obtain rs g1 w1 where n: "nexts (length pre) (Created (Some (pre @ rest))) w = ((rs, g1), w1)"
    by (metis prod.exhaust)
  with nexts_started [OF assms(1), of rest]
  have "rs = map (yield_of w) pre" "w1 = use_all pre w"
    "gen_next g1 (use_all pre w) = iter_step rest (use_all pre w)"
    by simp_all
  with n assms(2) show ?thesis
    by (simp only: nexts_Suc_split) simp
qed

section \<open>Operations and the stores: facts\<close>

lemma stores_kept_refl: "stores_kept w w"
  by (simp add: stores_kept_def)

lemma stores_kept_trans: "stores_kept w w1 \<Longrightarrow> stores_kept w1 w2 \<Longrightarrow> stores_kept w w2"
  by (auto simp: stores_kept_def)

lemma stores_kept_rcParams: "stores_kept w (w\<lparr>rcParams := r\<rparr>)"
  by (simp add: stores_kept_def)

lemma stores_kept_rcParams_after: "stores_kept w w' \<Longrightarrow> stores_kept w (w'\<lparr>rcParams := r\<rparr>)"
  by (simp add: stores_kept_def)

lemma stores_kept_get: "stores_kept w (snd (get n w))"
  by (simp add: get_def stores_kept_refl split: option.splits)

lemma stores_kept_use: "stores_kept w (snd (use n w))"
  by (simp add: stores_kept_def use_frame)

lemma stores_kept_iter_step: "stores_kept w (snd (iter_step ns w))"
proof (cases ns)
  case Nil
  then show ?thesis by (simp add: iter_step_def stores_kept_refl)
next
  case (Cons a rest)
  obtain r w1 where u: "use a w = (r, w1)"
    by (cases "use a w")
  have "stores_kept w w1"
    using stores_kept_use [of w a] by (simp add: u)
  then show ?thesis
    by (cases r) (simp_all add: iter_step_def Cons u)
qed

lemma stores_kept_gen_next: "stores_kept w (snd (gen_next g w))"
proof (cases g)
  case (Created names)
  then show ?thesis
    by (cases names) (simp_all add: available_def stores_kept_iter_step)
next
  case (Suspended names)
  then show ?thesis by (simp add: stores_kept_iter_step)
next
  case Closed
  then show ?thesis by (simp add: stores_kept_refl)
qed

lemma stores_kept_nexts: "stores_kept w (snd (nexts k g w))"
proof (induction k arbitrary: g w)
  case 0
  show ?case by (simp add: stores_kept_refl)
next
  case (Suc k)
  obtain r g1 w1 where s: "gen_next g w = ((r, g1), w1)"
    by (metis prod.exhaust)
  obtain rs g2 w2 where t: "nexts k g1 w1 = ((rs, g2), w2)"
    by (metis prod.exhaust)
  have "stores_kept w w1"
    using stores_kept_gen_next [of w g] by (simp add: s)
  moreover have "stores_kept w1 w2"
    using Suc.IH [of w1 g1] by (simp add: t)
  ultimately show ?case
    using stores_kept_trans by (simp add: s t)
qed

lemma stores_kept_to_rcparams: "stores_kept w (snd (to_rcparams n w))"
  by (simp add: to_rcparams_def get_def new_RcParams_def RcParams_update_def stores_kept_def
      split: option.splits)

lemma stores_kept_with_context:
  assumes "keeps_stores body"
  shows "stores_kept w (snd (with_context n body w))"
proof (cases "dict_get (DEFAULT_THEMES w) n")
  case None
  then show ?thesis by (simp add: with_context_def get_def stores_kept_refl)
next
  case (Some t)
  let ?w1 = "w\<lparr>rcParams := dict_update (rcParams w) (theme_rc w t)\<rparr>"
  have "stores_kept ?w1 (snd (body ?w1))"
    using assms by (simp add: keeps_stores_def)
  from stores_kept_trans [OF stores_kept_rcParams this]
  have "stores_kept w ((snd (body ?w1))\<lparr>rcParams := rcParams w\<rparr>)"
    by (rule stores_kept_rcParams_after)
  then show ?thesis
    using Some
    by (cases "body ?w1") (simp add: with_context_def get_def rc_context_def Let_def)
qed

lemma stores_kept_run_op: "body_keeps_stores x \<Longrightarrow> stores_kept w (run_op x w)"
  by (cases x)
     (simp_all add: available_def stores_kept_refl stores_kept_get stores_kept_use
        iter_use_def stores_kept_nexts stores_kept_to_rcparams stores_kept_with_context)

lemma stores_kept_run_ops: "list_all body_keeps_stores ops \<Longrightarrow> stores_kept w (run_ops ops w)"
proof (induction ops arbitrary: w)
  case Nil
  show ?case by (simp add: run_ops_def stores_kept_refl)
next
  case (Cons x ops)
  from Cons.prems have "stores_kept w (run_op x w)" by (simp add: stores_kept_run_op)
  moreover from Cons have "stores_kept (run_op x w) (run_ops ops (run_op x w))" by simp
  ultimately show ?case
    using stores_kept_trans by (fastforce simp: run_ops_def)
qed

lemma stores_kept_stored_theme:
  assumes "wf_world w" and "stores_kept w w'"
  shows "stored_theme w' n = stored_theme w n"
proof (cases "dict_get (DEFAULT_THEMES w) n")
  case None
  with assms(2) show ?thesis by (simp add: stored_theme_def stores_kept_def)
next
  case (Some t)
  from assms(2) obtain zs where zs: "rc_objs w' = rc_objs w @ zs"
    by (auto simp: stores_kept_def prefix_def)
  from wf_world_entry(3) [OF assms(1) Some] assms(2) Some show ?thesis
    by (simp add: stored_theme_def stores_kept_def theme_rc_def zs nth_append)
qed

section \<open>The invariant is kept by the public functions\<close>

lemma wf_world_rcParams [simp]: "wf_world (w\<lparr>rcParams := r\<rparr>) = wf_world w"
  by (simp add: wf_world_def)

lemma wf_world_use: "wf_world w \<Longrightarrow> wf_world (snd (use n w))"
  by (simp add: wf_world_def use_frame)

lemma wf_world_use_all: "wf_world w \<Longrightarrow> wf_world (use_all ns w)"
  by (induction ns arbitrary: w) (simp_all add: wf_world_use)

lemma wf_world_to_rcparams:
  assumes "wf_world w"
  shows "wf_world (snd (to_rcparams n w))"
proof (cases "dict_get (DEFAULT_THEMES w) n")
  case None
  with assms show ?thesis by (simp add: to_rcparams_def get_None)
next
  case (Some t)
  have r: "rc (theme_objs w ! t) < length (rc_objs w)"
    using wf_world_entry(3) [OF assms Some] .
  have d: "distinct (dict_keys (dict_update [] (rc_objs w ! rc (theme_objs w ! t))))"
    by (rule distinct_keys_update) (simp add: dict_keys_def)
  have "list_all (entry_ok (theme_objs w) (rc_objs w @ [x])) (DEFAULT_THEMES w)" for x
    using assms entry_ok_append [of "theme_objs w" "rc_objs w" _ "[]" "[x]"]
    by (auto simp: wf_world_def list_all_iff)
  with assms d show ?thesis
    by (simp add: to_rcparams_Some [OF Some r] wf_world_def)
qed

lemma wf_world_with_context:
  assumes "wf_world w" and "\<And>w'. wf_world w' \<Longrightarrow> wf_world (snd (body w'))"
  shows "wf_world (snd (with_context n body w))"
proof (cases "dict_get (DEFAULT_THEMES w) n")
  case None
  with assms(1) show ?thesis by (simp add: with_context_def get_None)
next
  case (Some t)
  let ?w1 = "w\<lparr>rcParams := dict_update (rcParams w) (theme_rc w t)\<rparr>"
  have "wf_world (snd (body ?w1))"
    using assms by simp
  then show ?thesis
    using Some by (cases "body ?w1") (simp add: with_context_def get_Some rc_context_def Let_def)
qed

lemma wf_world_iter_step: "wf_world w \<Longrightarrow> wf_world (snd (iter_step ns w))"
proof (cases ns)
  case Nil
  moreover assume "wf_world w"
  ultimately show ?thesis by (simp add: iter_step_def)
next
  case (Cons a rest)
  assume "wf_world w"
  then have "wf_world (snd (use a w))" by (rule wf_world_use)
  then show ?thesis
    by (cases "use a w"; cases "fst (use a w)") (simp_all add: iter_step_def Cons)
qed

lemma wf_world_gen_next: "wf_world w \<Longrightarrow> wf_world (snd (gen_next g w))"
proof (cases g)
  case (Created names)
  moreover assume "wf_world w"
  ultimately show ?thesis
    by (cases names) (simp_all add: available_def wf_world_iter_step)
next
  case (Suspended names)
  moreover assume "wf_world w"
  ultimately show ?thesis by (simp add: wf_world_iter_step)
next
  case Closed
  moreover assume "wf_world w"
  ultimately show ?thesis by simp
qed

lemma wf_world_nexts: "wf_world w \<Longrightarrow> wf_world (snd (nexts k g w))"
proof (induction k arbitrary: g w)
  case 0
  then show ?case by simp
next
  case (Suc k)
  obtain r g1 w1 where s: "gen_next g w = ((r, g1), w1)"
    by (metis prod.exhaust)
  obtain rs g2 w2 where t: "nexts k g1 w1 = ((rs, g2), w2)"
    by (metis prod.exhaust)
  have "wf_world w1"
    using wf_world_gen_next [OF Suc.prems, of g] by (simp add: s)
  from Suc.IH [OF this, of g1] show ?case
    by (simp add: s t)
qed

section \<open>The example data: facts\<close>

lemma example_init: "module_init example_style mpl_defaults = Inr example_world"
  by code_simp

lemma example_registry: "DEFAULT_THEMES example_world = [(''light'', 0), (''dark'', 1)]"
  by code_simp

lemma example_wf: "wf_world example_world"
  by (rule module_init_wf [OF example_init])

lemma example_dark: "dict_get (DEFAULT_THEMES example_world) ''dark'' = Some 1"
  by code_simp

lemma example_light: "dict_get (DEFAULT_THEMES example_world) ''light'' = Some 0"
  by code_simp

lemma example_sepia: "dict_get (DEFAULT_THEMES example_world) ''sepia'' = None"
  by code_simp

lemma keeps_stores_failing_body: "keeps_stores failing_body"
  by (simp add: keeps_stores_def failing_body_def stores_kept_def)

section \<open>Lookup\<close>

text \<open>
  C1, as amended. In a state built by the module: for a name of the registry,
  \<^verbatim>\<open>get\<close> returns the Theme filed under it, whose \<^verbatim>\<open>name\<close> is the requested name,
  and leaves the state as it is. For a name absent from the registry, \<^verbatim>\<open>get\<close> raises
  \<^verbatim>\<open>KeyError\<close> and leaves the state as it is; the message is \<^verbatim>\<open>Unknown theme: \<close>, the
  \<^verbatim>\<open>repr\<close> of the requested name, \<^verbatim>\<open>. Available: \<close> and the \<^verbatim>\<open>repr\<close> of the sorted list
  of all available names. The message contains the requested name literally when
  the name consists of printable characters other than the single quote and the
  backslash; \<^verbatim>\<open>repr\<close> then only puts it in single quotes.
\<close>

theorem get_found_or_KeyError:
  assumes "wf_world w"
  shows "(\<forall>t. dict_get (DEFAULT_THEMES w) n = Some t \<longrightarrow>
            get n w = (Inr t, w) \<and> t < length (theme_objs w) \<and> name (theme_objs w ! t) = n) \<and>
         (dict_get (DEFAULT_THEMES w) n = None \<longrightarrow>
            get n w = (Inl (KeyError (unknown_theme_message n w)), w) \<and>
            unknown_theme_message n w =
              ''Unknown theme: '' @ repr_str n @ ''. Available: '' @
              repr_list (sort (fst (available w))) \<and>
            sorted (sort (fst (available w))) \<and>
            distinct (sort (fst (available w))) \<and>
            set (sort (fst (available w))) = set (fst (available w)) \<and>
            (list_all verbatim_char n \<longrightarrow>
               repr_str n = [CHR 0x27] @ n @ [CHR 0x27] \<and>
               sublist n (unknown_theme_message n w)))"
proof (intro conjI allI impI)
  fix t assume "dict_get (DEFAULT_THEMES w) n = Some t"
  with wf_world_entry [OF assms this]
  show "get n w = (Inr t, w)" "t < length (theme_objs w)" "name (theme_objs w ! t) = n"
    by (simp_all add: get_def)
next
  assume "dict_get (DEFAULT_THEMES w) n = None"
  then show "get n w = (Inl (KeyError (unknown_theme_message n w)), w)"
    by (simp add: get_def)
  show "unknown_theme_message n w =
          ''Unknown theme: '' @ repr_str n @ ''. Available: '' @
          repr_list (sort (fst (available w)))"
    by (simp add: unknown_theme_message_def available_def)
  show "sorted (sort (fst (available w)))" by simp
  show "distinct (sort (fst (available w)))"
    using assms by (simp add: wf_world_def available_def)
  show "set (sort (fst (available w))) = set (fst (available w))" by simp
next
  assume v: "list_all verbatim_char n"
  then show r: "repr_str n = [CHR 0x27] @ n @ [CHR 0x27]" by (rule repr_str_verbatim)
  show "sublist n (unknown_theme_message n w)"
    unfolding unknown_theme_message_def r sublist_def
    by (rule exI [of _ "''Unknown theme: '' @ [CHR 0x27]"], rule exI) simp
qed

theorem get_found_or_KeyError_witness:
  "wf_world example_world \<and>
   dict_get (DEFAULT_THEMES example_world) ''dark'' = Some 1 \<and>
   get ''dark'' example_world = (Inr 1, example_world) \<and>
   name (theme_objs example_world ! 1) = ''dark'' \<and>
   dict_get (DEFAULT_THEMES example_world) ''sepia'' = None \<and>
   get ''sepia'' example_world =
     (Inl (KeyError (unknown_theme_message ''sepia'' example_world)), example_world) \<and>
   list_all verbatim_char ''sepia'' \<and>
   sublist ''sepia'' (unknown_theme_message ''sepia'' example_world)"
proof -
  have v: "list_all verbatim_char ''sepia''"
    by code_simp
  from get_found_or_KeyError [OF example_wf, of "''dark''"] example_dark
  have a: "get ''dark'' example_world = (Inr 1, example_world)"
    "name (theme_objs example_world ! 1) = ''dark''"
    by blast+
  from get_found_or_KeyError [OF example_wf, of "''sepia''"] example_sepia v
  have b: "get ''sepia'' example_world =
     (Inl (KeyError (unknown_theme_message ''sepia'' example_world)), example_world)"
    "sublist ''sepia'' (unknown_theme_message ''sepia'' example_world)"
    by blast+
  from a b example_wf example_dark example_sepia v show ?thesis
    by blast
qed

text \<open>
  C1 as stated fails: \<^verbatim>\<open>repr\<close> doubles a backslash, so for an absent name of three
  characters with a backslash in the middle the message has four characters in
  its place and does not contain the requested name.
\<close>

theorem get_message_counterexample:
  "module_init example_style mpl_defaults = Inr example_world \<and>
   dict_get (DEFAULT_THEMES example_world) backslash_name = None \<and>
   fst (get backslash_name example_world) =
     Inl (KeyError (unknown_theme_message backslash_name example_world)) \<and>
   \<not> sublist backslash_name (unknown_theme_message backslash_name example_world)"
  by code_simp

section \<open>Applying a theme globally\<close>

text \<open>
  C2. In a state built by the module: for a name of the registry, \<^verbatim>\<open>use\<close> returns
  the very Theme that \<^verbatim>\<open>get\<close> returns, before and after the call; afterwards every
  key of the theme's configuration has the theme's value in the global
  configuration, every other key of the global configuration has the value it
  had, and the registry and the stored objects are as before. For an absent name
  \<^verbatim>\<open>use\<close> raises the \<^verbatim>\<open>KeyError\<close> of \<^verbatim>\<open>get\<close> and leaves the whole state, so the
  global configuration too, unchanged.
\<close>

theorem use_merges_theme:
  assumes "wf_world w"
  shows "(\<forall>t. dict_get (DEFAULT_THEMES w) n = Some t \<longrightarrow>
            (\<exists>w'. use n w = (Inr t, w') \<and>
                  fst (get n w) = Inr t \<and> fst (get n w') = Inr t \<and>
                  (\<forall>k v. dict_get (theme_rc w t) k = Some v \<longrightarrow>
                         dict_get (rcParams w') k = Some v) \<and>
                  (\<forall>k. dict_get (theme_rc w t) k = None \<longrightarrow>
                       dict_get (rcParams w') k = dict_get (rcParams w) k) \<and>
                  theme_objs w' = theme_objs w \<and> rc_objs w' = rc_objs w \<and>
                  DEFAULT_THEMES w' = DEFAULT_THEMES w)) \<and>
         (dict_get (DEFAULT_THEMES w) n = None \<longrightarrow>
            use n w = (Inl (KeyError (unknown_theme_message n w)), w) \<and>
            fst (use n w) = fst (get n w))"
proof (intro conjI allI impI)
  fix t assume t: "dict_get (DEFAULT_THEMES w) n = Some t"
  have d: "distinct (dict_keys (theme_rc w t))"
    using wf_world_entry(4) [OF assms t] .
  show "\<exists>w'. use n w = (Inr t, w') \<and>
                  fst (get n w) = Inr t \<and> fst (get n w') = Inr t \<and>
                  (\<forall>k v. dict_get (theme_rc w t) k = Some v \<longrightarrow>
                         dict_get (rcParams w') k = Some v) \<and>
                  (\<forall>k. dict_get (theme_rc w t) k = None \<longrightarrow>
                       dict_get (rcParams w') k = dict_get (rcParams w) k) \<and>
                  theme_objs w' = theme_objs w \<and> rc_objs w' = rc_objs w \<and>
                  DEFAULT_THEMES w' = DEFAULT_THEMES w"
    using t by (simp add: use_Some get_Some dict_get_update [OF d])
next
  assume "dict_get (DEFAULT_THEMES w) n = None"
  then show "use n w = (Inl (KeyError (unknown_theme_message n w)), w)"
    and "fst (use n w) = fst (get n w)"
    by (simp_all add: use_None get_None)
qed

theorem use_merges_theme_witness:
  "wf_world example_world \<and>
   dict_get (DEFAULT_THEMES example_world) ''dark'' = Some 1 \<and>
   fst (use ''dark'' example_world) = Inr 1 \<and>
   dict_get (theme_rc example_world 1) ''figure.facecolor'' = Some (RStr ''#111111'') \<and>
   dict_get (rcParams (snd (use ''dark'' example_world))) ''figure.facecolor'' =
     Some (RStr ''#111111'') \<and>
   dict_get (theme_rc example_world 1) ''backend'' = None \<and>
   dict_get (rcParams (snd (use ''dark'' example_world))) ''backend'' = Some (RStr ''agg'') \<and>
   dict_get (DEFAULT_THEMES example_world) ''sepia'' = None \<and>
   use ''sepia'' example_world =
     (Inl (KeyError (unknown_theme_message ''sepia'' example_world)), example_world)"
proof -
  have f: "dict_get (theme_rc example_world 1) ''figure.facecolor'' = Some (RStr ''#111111'')"
    by code_simp
  have b: "dict_get (theme_rc example_world 1) ''backend'' = None"
    by code_simp
  have m: "dict_get (rcParams example_world) ''backend'' = Some (RStr ''agg'')"
    by code_simp
  from use_merges_theme [OF example_wf, of "''dark''"] example_dark f b m
  have "fst (use ''dark'' example_world) = Inr 1"
    "dict_get (rcParams (snd (use ''dark'' example_world))) ''figure.facecolor'' =
       Some (RStr ''#111111'')"
    "dict_get (rcParams (snd (use ''dark'' example_world))) ''backend'' = Some (RStr ''agg'')"
    by auto
  with use_merges_theme [OF example_wf, of "''sepia''"] example_wf example_dark example_sepia f b
  show ?thesis by simp
qed

section \<open>Applying a theme for a scope\<close>

text \<open>
  C3. In a state built by the module, for every name of the registry and every
  body: \<^verbatim>\<open>with context(name): body\<close> runs the body in the state whose global
  configuration has the theme's value for every key of the theme's configuration
  (and the prior value for every other key), returns or raises what the body
  returns or raises, and ends with the global configuration exactly as it was
  before the statement.
\<close>

theorem context_restores:
  assumes "wf_world w" and "dict_get (DEFAULT_THEMES w) n = Some t"
  shows "rcParams (snd (with_context n body w)) = rcParams w \<and>
         (\<exists>w1. with_context n body w =
                 (fst (body w1), (snd (body w1))\<lparr>rcParams := rcParams w\<rparr>) \<and>
               w1 = w\<lparr>rcParams := rcParams w1\<rparr> \<and>
               (\<forall>k v. dict_get (theme_rc w t) k = Some v \<longrightarrow>
                      dict_get (rcParams w1) k = Some v) \<and>
               (\<forall>k. dict_get (theme_rc w t) k = None \<longrightarrow>
                    dict_get (rcParams w1) k = dict_get (rcParams w) k))"
proof -
  have d: "distinct (dict_keys (theme_rc w t))"
    using wf_world_entry(4) [OF assms] .
  let ?w1 = "w\<lparr>rcParams := dict_update (rcParams w) (theme_rc w t)\<rparr>"
  have "with_context n body w = (fst (body ?w1), (snd (body ?w1))\<lparr>rcParams := rcParams w\<rparr>)"
    by (simp add: with_context_def get_Some [OF assms(2)] rc_context_def Let_def split: prod.splits)
  then show ?thesis
    by (intro conjI exI [of _ ?w1]) (simp_all add: dict_get_update [OF d])
qed

theorem context_restores_witness:
  "wf_world example_world \<and>
   dict_get (DEFAULT_THEMES example_world) ''light'' = Some 0 \<and>
   fst (with_context ''light'' failing_body example_world) = Inl (Exception ''boom'') \<and>
   rcParams (snd (with_context ''light'' failing_body example_world)) = rcParams example_world"
proof -
  have "fst (with_context ''light'' failing_body example_world) = Inl (Exception ''boom'')"
    by code_simp
  with context_restores [OF example_wf example_light, of failing_body] example_wf example_light
  show ?thesis by blast
qed

section \<open>The translation table\<close>



section \<open>Failure of the load\<close>




section \<open>Iterating over themes\<close>

text \<open>
  C6. In a state built by the module, for every list of names of the registry:
  the call of \<^verbatim>\<open>iter_use\<close> changes nothing; after \<open>k\<close> calls of \<^verbatim>\<open>next\<close>, for every
  \<open>k\<close> up to the number of names, the pairs yielded are those of the first \<open>k\<close>
  names, each name with the Theme that \<^verbatim>\<open>get\<close> returns for it, and the state is the
  one after \<^verbatim>\<open>use\<close> of exactly these \<open>k\<close> names in order, so a consumer that stops
  there leaves it so; one more \<^verbatim>\<open>next\<close> after the last name ends the iteration
  without a further change; the global configuration then has the value of the
  last theme for every key of its configuration; and without an argument the
  generator behaves as with the list \<^verbatim>\<open>available()\<close>.
\<close>

theorem iter_use_applies_in_order:
  assumes "wf_world w"
    and "list_all (\<lambda>n. dict_get (DEFAULT_THEMES w) n \<noteq> None) names"
  shows "snd (iter_use (Some names) w) = w \<and>
         (\<forall>k \<le> length names.
            fst (fst (nexts k (fst (iter_use (Some names) w)) w)) = map (yield_of w) (take k names) \<and>
            snd (nexts k (fst (iter_use (Some names) w)) w) = use_all (take k names) w) \<and>
         nexts (Suc (length names)) (fst (iter_use (Some names) w)) w =
            ((map (yield_of w) names @ [Inr None], Closed), use_all names w) \<and>
         (\<forall>n \<in> set names. \<exists>t. yield_of w n = Inr (Some (n, t)) \<and> fst (get n w) = Inr t) \<and>
         (\<forall>t k v. names \<noteq> [] \<longrightarrow> dict_get (DEFAULT_THEMES w) (last names) = Some t \<longrightarrow>
              dict_get (theme_rc w t) k = Some v \<longrightarrow>
              dict_get (rcParams (use_all names w)) k = Some v) \<and>
         (\<forall>k. nexts (Suc k) (fst (iter_use None w)) w =
              nexts (Suc k) (fst (iter_use (Some (fst (available w))) w)) w)"
proof (intro conjI allI impI ballI)
  show "snd (iter_use (Some names) w) = w" by (simp add: iter_use_def)
next
  fix k assume k: "k \<le> length names"
  have v: "list_all (\<lambda>n. dict_get (DEFAULT_THEMES w) n \<noteq> None) (take k names)"
    using assms(2) by (auto simp: list_all_iff dest: in_set_takeD)
  from k have l: "min (length names) k = k" by simp
  from nexts_started [OF v, of "drop k names"]
  show "fst (fst (nexts k (fst (iter_use (Some names) w)) w)) = map (yield_of w) (take k names)"
    and "snd (nexts k (fst (iter_use (Some names) w)) w) = use_all (take k names) w"
    by (simp_all add: l iter_use_def)
next
  have "iter_step [] (use_all names w) = ((Inr None, Closed), use_all names w)"
    by (simp add: iter_step_def)
  from nexts_then_step [OF assms(2), of "[]", OF this]
  show "nexts (Suc (length names)) (fst (iter_use (Some names) w)) w =
            ((map (yield_of w) names @ [Inr None], Closed), use_all names w)"
    by (simp add: iter_use_def)
next
  fix n assume "n \<in> set names"
  with assms(2) have "dict_get (DEFAULT_THEMES w) n \<noteq> None"
    by (simp add: list_all_iff)
  then show "\<exists>t. yield_of w n = Inr (Some (n, t)) \<and> fst (get n w) = Inr t"
    by (rule yield_of_valid)
next
  fix t k v
  assume "names \<noteq> []" "dict_get (DEFAULT_THEMES w) (last names) = Some t"
    "dict_get (theme_rc w t) k = Some v"
  then show "dict_get (rcParams (use_all names w)) k = Some v"
    using use_all_last [OF assms(1)] by blast
next
  fix k
  show "nexts (Suc k) (fst (iter_use None w)) w =
        nexts (Suc k) (fst (iter_use (Some (fst (available w))) w)) w"
    by (simp only: iter_use_def fst_conv nexts_Suc_Created_None)
qed

theorem iter_use_applies_in_order_witness:
  "wf_world example_world \<and>
   list_all (\<lambda>n. dict_get (DEFAULT_THEMES example_world) n \<noteq> None) [''light'', ''dark''] \<and>
   nexts 3 (fst (iter_use (Some [''light'', ''dark'']) example_world)) example_world =
     (([Inr (Some (''light'', 0)), Inr (Some (''dark'', 1)), Inr None], Closed),
      use_all [''light'', ''dark''] example_world) \<and>
   snd (nexts 1 (fst (iter_use (Some [''light'', ''dark'']) example_world)) example_world) =
     use_all [''light''] example_world"
proof -
  have v: "list_all (\<lambda>n. dict_get (DEFAULT_THEMES example_world) n \<noteq> None) [''light'', ''dark'']"
    by (simp add: example_light example_dark)
  have y: "yield_of example_world ''light'' = Inr (Some (''light'', 0))"
    "yield_of example_world ''dark'' = Inr (Some (''dark'', 1))"
    by (simp_all add: yield_of_def get_def example_light example_dark)
  note t = iter_use_applies_in_order [OF example_wf v]
  from t have "nexts (Suc (length [''light'', ''dark'']))
       (fst (iter_use (Some [''light'', ''dark'']) example_world)) example_world =
     ((map (yield_of example_world) [''light'', ''dark''] @ [Inr None], Closed),
      use_all [''light'', ''dark''] example_world)"
    by blast
  then have a: "nexts 3 (fst (iter_use (Some [''light'', ''dark'']) example_world)) example_world =
     (([Inr (Some (''light'', 0)), Inr (Some (''dark'', 1)), Inr None], Closed),
      use_all [''light'', ''dark''] example_world)"
    by (simp add: y numeral_3_eq_3)
  from t have "1 \<le> length [''light'', ''dark''] \<longrightarrow>
     snd (nexts 1 (fst (iter_use (Some [''light'', ''dark'']) example_world)) example_world) =
     use_all (take 1 [''light'', ''dark'']) example_world"
    by blast
  then have b: "snd (nexts 1 (fst (iter_use (Some [''light'', ''dark'']) example_world)) example_world) =
     use_all [''light''] example_world"
    by simp
  from a b v example_wf show ?thesis by simp
qed



section \<open>An isolated copy\<close>

text \<open>
  C7. In a state built by the module, for every name of the registry:
  \<^verbatim>\<open>to_rcparams\<close> returns a new \<^verbatim>\<open>RcParams\<close> object, different from the one the stored
  Theme references and from every object that existed; it has the same value as
  the stored configuration for every key; the registry, the Theme objects, the
  global configuration and all objects that existed are unchanged; and an
  assignment to any entry of the returned object changes that object only.
\<close>

theorem to_rcparams_independent_copy:
  assumes "wf_world w" and "dict_get (DEFAULT_THEMES w) n = Some t"
  shows "\<exists>a w'. to_rcparams n w = (Inr a, w') \<and>
           a \<noteq> rc (theme_objs w ! t) \<and> length (rc_objs w) \<le> a \<and> a < length (rc_objs w') \<and>
           (\<forall>k. dict_get (rc_objs w' ! a) k = dict_get (theme_rc w t) k) \<and>
           theme_objs w' = theme_objs w \<and> DEFAULT_THEMES w' = DEFAULT_THEMES w \<and>
           rcParams w' = rcParams w \<and>
           (\<forall>b < length (rc_objs w). rc_objs w' ! b = rc_objs w ! b) \<and>
           theme_rc w' t = theme_rc w t \<and>
           (\<forall>k v. theme_rc (RcParams_setitem a k v w') t = theme_rc w t \<and>
                  theme_objs (RcParams_setitem a k v w') = theme_objs w \<and>
                  dict_get (rc_objs (RcParams_setitem a k v w') ! a) k = Some v \<and>
                  (\<forall>b < length (rc_objs w'). b \<noteq> a \<longrightarrow>
                     rc_objs (RcParams_setitem a k v w') ! b = rc_objs w' ! b))"
proof -
  have r: "rc (theme_objs w ! t) < length (rc_objs w)"
    using wf_world_entry(3) [OF assms] .
  have d: "distinct (dict_keys (theme_rc w t))"
    using wf_world_entry(4) [OF assms] .
  have e: "dict_get [] k = None" for k :: string
    by (simp add: dict_get_def)
  show ?thesis
    unfolding to_rcparams_Some [OF assms(2) r]
    using r dict_get_update [OF d, of "[]"]
    by (auto simp: theme_rc_def nth_append RcParams_setitem_def dict_get_setitem e
        split: option.splits)
qed

theorem to_rcparams_independent_copy_witness:
  "wf_world example_world \<and>
   dict_get (DEFAULT_THEMES example_world) ''dark'' = Some 1 \<and>
   fst (to_rcparams ''dark'' example_world) = Inr 2 \<and>
   rc (theme_objs example_world ! 1) = 1 \<and>
   theme_rc (RcParams_setitem 2 ''figure.facecolor'' (RStr ''#123456'')
              (snd (to_rcparams ''dark'' example_world))) 1 =
     theme_rc example_world 1"
proof -
  have l: "length (rc_objs example_world) = 2" "rc (theme_objs example_world ! 1) = 1"
    by code_simp+
  have r: "rc (theme_objs example_world ! 1) < length (rc_objs example_world)"
    by code_simp
  from to_rcparams_independent_copy [OF example_wf example_dark]
  obtain a w' where "to_rcparams ''dark'' example_world = (Inr a, w')"
    and "\<forall>k v. theme_rc (RcParams_setitem a k v w') 1 = theme_rc example_world 1"
    by blast
  moreover have "fst (to_rcparams ''dark'' example_world) = Inr 2"
    by (simp add: to_rcparams_Some [OF example_dark r] l)
  ultimately show ?thesis
    using example_wf example_dark l by simp
qed

section \<open>The available names\<close>

text \<open>
  C8. After a successful import, \<^verbatim>\<open>available\<close> returns the names of the members of
  the data file, each once, in the order of their first occurrence in the file
  (the order of the file itself when no name occurs twice), and leaves the state
  as it is.
\<close>

theorem available_names:
  assumes "module_init members mpl0 = Inr w"
  shows "fst (available w) = rev (remdups (rev (map fst members))) \<and>
         set (fst (available w)) = set (map fst members) \<and>
         distinct (fst (available w)) \<and>
         (distinct (map fst members) \<longrightarrow> fst (available w) = map fst members) \<and>
         snd (available w) = w"
  using module_init_keys [OF assms]
  by (auto simp: available_def keys_read_default_style distinct_remdups_id)

theorem available_names_witness:
  "module_init example_style mpl_defaults = Inr example_world \<and>
   fst (available example_world) = [''light'', ''dark''] \<and>
   snd (available example_world) = example_world"
proof -
  have "distinct (map fst example_style)" "map fst example_style = [''light'', ''dark'']"
    by (simp_all add: example_style_def)
  with available_names [OF example_init] example_init show ?thesis
    by simp
qed

section \<open>Stored themes and mutation\<close>

text \<open>
  C9, as amended. The public functions do not modify what is stored: in a state
  built by the module, after any sequence of calls of \<^verbatim>\<open>available\<close>, \<^verbatim>\<open>get\<close>,
  \<^verbatim>\<open>use\<close>, \<^verbatim>\<open>iter_use\<close>, \<^verbatim>\<open>to_rcparams\<close> and \<^verbatim>\<open>context\<close> whose bodies leave the
  stored objects alone, the registry, every Theme object (name, palette and
  reference to its configuration) and every \<^verbatim>\<open>RcParams\<close> object that existed are
  identical to what they were, for every theme name.
\<close>

theorem public_operations_keep_stored_themes:
  assumes "wf_world w" and "list_all body_keeps_stores ops"
  shows "stored_theme (run_ops ops w) n = stored_theme w n \<and>
         DEFAULT_THEMES (run_ops ops w) = DEFAULT_THEMES w \<and>
         theme_objs (run_ops ops w) = theme_objs w \<and>
         (\<forall>a < length (rc_objs w). rc_objs (run_ops ops w) ! a = rc_objs w ! a)"
proof -
  have k: "stores_kept w (run_ops ops w)"
    using assms(2) by (rule stores_kept_run_ops)
  then obtain zs where "rc_objs (run_ops ops w) = rc_objs w @ zs"
    by (auto simp: stores_kept_def prefix_def)
  with k stores_kept_stored_theme [OF assms(1) k] show ?thesis
    by (simp add: stores_kept_def nth_append)
qed

theorem public_operations_keep_stored_themes_witness:
  "wf_world example_world \<and>
   list_all body_keeps_stores
     [Get ''dark'', Use ''light'', IterUse None 3, ToRcparams ''dark'',
      Context ''light'' failing_body, Available] \<and>
   stored_theme
     (run_ops [Get ''dark'', Use ''light'', IterUse None 3, ToRcparams ''dark'',
               Context ''light'' failing_body, Available] example_world) ''dark'' =
   stored_theme example_world ''dark''"
proof -
  have b: "list_all body_keeps_stores
     [Get ''dark'', Use ''light'', IterUse None 3, ToRcparams ''dark'',
      Context ''light'' failing_body, Available]"
    by (simp add: keeps_stores_failing_body)
  from public_operations_keep_stored_themes [OF example_wf b] example_wf b
  show ?thesis by simp
qed

text \<open>
  C9 as stated fails: the configuration of a stored Theme is a mutable object that
  \<^verbatim>\<open>get\<close> hands out. A \<^verbatim>\<open>context\<close> whose body assigns to an entry of
  \<^verbatim>\<open>get("dark").rc\<close> leaves the stored configuration of the theme changed.
\<close>

theorem stored_theme_mutation_counterexample:
  "module_init example_style mpl_defaults = Inr example_world \<and>
   stored_theme (run_ops [Context ''dark'' client_write] example_world) ''dark'' \<noteq>
   stored_theme example_world ''dark''"
  by code_simp

end
